theory Spec2Isabelle
  imports Main "HOL-Library.Word"
begin

section \<open>Typed row accessor of the scan batch (kudu/client/scan\_batch.cc)\<close>

text \<open>
  The development embeds \<^verbatim>\<open>KuduScanBatch::RowPtr\<close>: the typed getters, the null
  predicate, the deleted-row accessor, the decimal widening and the two renderers.
  A row is a raw pointer into a buffer owned by the batch; it is modelled as the
  memory seen from that pointer, a total function from byte offsets to bytes.
\<close>

subsection \<open>Statuses and outcomes\<close>

text \<open>
  \<^verbatim>\<open>Status\<close> carries a code and a message. The source only ever builds the three
  kinds below.
\<close>

datatype Status = OK | NotFound string | InvalidArgument string

fun ok :: "Status \<Rightarrow> bool" where
  "ok OK = True"
| "ok (NotFound m) = False"
| "ok (InvalidArgument m) = False"

fun IsNotFound :: "Status \<Rightarrow> bool" where
  "IsNotFound (NotFound m) = True"
| "IsNotFound OK = False"
| "IsNotFound (InvalidArgument m) = False"

fun IsInvalidArgument :: "Status \<Rightarrow> bool" where
  "IsInvalidArgument (InvalidArgument m) = True"
| "IsInvalidArgument OK = False"
| "IsInvalidArgument (NotFound m) = False"

text \<open>
  What a call does: it returns a value, or a failed \<^verbatim>\<open>CHECK_OK\<close> terminates the
  process (the status that failed the check is kept), or the call indexes the schema's
  column vector out of range, for which C++ defines no behaviour.
\<close>

datatype 'a outcome = Returns 'a | Fatal Status | Undefined

subsection \<open>Schema (external collaborator)\<close>

datatype DataType =
    BOOL | INT8 | INT16 | INT32 | INT64 | INT128 | FLOAT | DOUBLE
  | STRING | BINARY | VARCHAR | DATE | UNIXTIME_MICROS
  | DECIMAL32 | DECIMAL64 | DECIMAL128 | IS_DELETED

type_synonym byte = "8 word"

text \<open>\<^verbatim>\<open>col.type_info()\<close>: the logical type of a column and its printable name.\<close>

record TypeInfo =
  ti_type :: DataType
  ti_name :: string

text \<open>
  Modelled from the spec: \<^verbatim>\<open>ColumnSchema\<close> and \<^verbatim>\<open>Schema\<close> (kudu/common/schema.h) are
  not part of the source file. A column descriptor has a name, a logical type, a
  nullability flag and the byte offset of its slot in the fixed-width row region; a
  schema is the ordered list of descriptors together with the size of the fixed-width
  region.
\<close>

record ColumnSchema =
  name :: string
  type_info :: TypeInfo
  is_nullable :: bool
  byte_offset :: nat

record Schema =
  cols :: "ColumnSchema list"
  byte_size :: nat

definition num_columns :: "Schema \<Rightarrow> nat" where
  "num_columns s = length (cols s)"

text \<open>
  \<^verbatim>\<open>schema_->column(col_idx)\<close> indexes the column vector without a bounds check; an
  index outside \<open>0 ..< num_columns\<close> has no defined behaviour, here \<open>None\<close>.
\<close>

definition column :: "Schema \<Rightarrow> int \<Rightarrow> ColumnSchema option" where
  "column s col_idx =
     (if 0 \<le> col_idx \<and> nat col_idx < length (cols s)
      then Some (cols s ! nat col_idx) else None)"

definition column_offset :: "Schema \<Rightarrow> int \<Rightarrow> nat option" where
  "column_offset s col_idx = map_option byte_offset (column s col_idx)"

definition kColumnNotFound :: int where
  "kColumnNotFound = - 1"

fun find_column_from :: "nat \<Rightarrow> ColumnSchema list \<Rightarrow> string \<Rightarrow> int" where
  "find_column_from i [] col_name = kColumnNotFound"
| "find_column_from i (c # cs) col_name =
     (if name c = col_name then int i else find_column_from (Suc i) cs col_name)"

text \<open>
  Modelled from the spec: \<^verbatim>\<open>Schema::FindColumn\<close> resolves a name to the index of the
  column of that name and fails with a not-found status when the schema has no such
  column. The wording of its message is not fixed by the spec.
\<close>

definition FindColumn :: "Schema \<Rightarrow> string \<Rightarrow> Status \<times> int" where
  "FindColumn s col_name =
     (let idx = find_column_from 0 (cols s) col_name in
      if idx = kColumnNotFound then (NotFound (''No such column: '' @ col_name), idx)
      else (OK, idx))"

fun first_is_deleted_from :: "nat \<Rightarrow> ColumnSchema list \<Rightarrow> int" where
  "first_is_deleted_from i [] = kColumnNotFound"
| "first_is_deleted_from i (c # cs) =
     (if ti_type (type_info c) = IS_DELETED then int i
      else first_is_deleted_from (Suc i) cs)"

text \<open>
  Modelled from the spec: \<^verbatim>\<open>Schema::first_is_deleted_virtual_column_idx\<close> is the index
  of the designated deleted-row virtual column, or \<^verbatim>\<open>kColumnNotFound\<close> when the schema
  has none.
\<close>

definition first_is_deleted_virtual_column_idx :: "Schema \<Rightarrow> int" where
  "first_is_deleted_virtual_column_idx s = first_is_deleted_from 0 (cols s)"

subsection \<open>Type traits\<close>

text \<open>
  \<^verbatim>\<open>TypeTraits<T>\<close> as the getter template uses it: the type tag \<^verbatim>\<open>T::type\<close>, the
  printable name \<^verbatim>\<open>T::name()\<close> and the size of \<^verbatim>\<open>T::cpp_type\<close>.
\<close>

record TypeTraits =
  tt_type :: DataType
  tt_name :: string
  tt_size :: nat

text \<open>
  The width of the C++ type each getter writes through: \<^verbatim>\<open>bool\<close>, \<^verbatim>\<open>int8_t\<close> ...
  \<^verbatim>\<open>int128_t\<close>, \<^verbatim>\<open>float\<close>, \<^verbatim>\<open>double\<close>, and \<^verbatim>\<open>Slice\<close> (a pointer and a length) for the
  variable-length types.
\<close>

fun cpp_size :: "DataType \<Rightarrow> nat" where
  "cpp_size BOOL = 1"
| "cpp_size INT8 = 1"
| "cpp_size INT16 = 2"
| "cpp_size INT32 = 4"
| "cpp_size INT64 = 8"
| "cpp_size INT128 = 16"
| "cpp_size FLOAT = 4"
| "cpp_size DOUBLE = 8"
| "cpp_size STRING = 16"
| "cpp_size BINARY = 16"
| "cpp_size VARCHAR = 16"
| "cpp_size DATE = 4"
| "cpp_size UNIXTIME_MICROS = 8"
| "cpp_size DECIMAL32 = 4"
| "cpp_size DECIMAL64 = 8"
| "cpp_size DECIMAL128 = 16"
| "cpp_size IS_DELETED = 1"

text \<open>
  Modelled from the spec: the table of type names (kudu/common/types.h) is not part of
  the source file; each logical type of the spec is given its name in lower case. No
  result below depends on the spelling.
\<close>

fun type_name :: "DataType \<Rightarrow> string" where
  "type_name BOOL = ''bool''"
| "type_name INT8 = ''int8''"
| "type_name INT16 = ''int16''"
| "type_name INT32 = ''int32''"
| "type_name INT64 = ''int64''"
| "type_name INT128 = ''int128''"
| "type_name FLOAT = ''float''"
| "type_name DOUBLE = ''double''"
| "type_name STRING = ''string''"
| "type_name BINARY = ''binary''"
| "type_name VARCHAR = ''varchar''"
| "type_name DATE = ''date''"
| "type_name UNIXTIME_MICROS = ''unixtime_micros''"
| "type_name DECIMAL32 = ''decimal32''"
| "type_name DECIMAL64 = ''decimal64''"
| "type_name DECIMAL128 = ''decimal128''"
| "type_name IS_DELETED = ''is_deleted''"

definition TypeTraits :: "DataType \<Rightarrow> TypeTraits" where
  "TypeTraits t = \<lparr>tt_type = t, tt_name = type_name t, tt_size = cpp_size t\<rparr>"

definition GetTypeInfo :: "DataType \<Rightarrow> TypeInfo" where
  "GetTypeInfo t = \<lparr>ti_type = t, ti_name = type_name t\<rparr>"

subsection \<open>The row pointer\<close>

text \<open>
  \<^verbatim>\<open>row_data_\<close> is a raw pointer: \<open>row_data r k\<close> is the byte at \<^verbatim>\<open>row_data_ + k\<close>.
\<close>

record RowPtr =
  schema :: Schema
  row_data :: "nat \<Rightarrow> byte"

text \<open>The \<open>n\<close> bytes at \<^verbatim>\<open>p + off\<close>, in address order: the source of a \<^verbatim>\<open>memcpy\<close>.\<close>

definition read_bytes :: "(nat \<Rightarrow> byte) \<Rightarrow> nat \<Rightarrow> nat \<Rightarrow> byte list" where
  "read_bytes p off n = map p [off ..< off + n]"

text \<open>
  Modelled from the spec: \<^verbatim>\<open>BitmapTest\<close> (kudu/util/bitmap.h) is not part of the source
  file. It tests bit \<open>idx\<close> of a bitmap, bit \<open>idx mod 8\<close> of byte \<open>idx div 8\<close>,
  counted from the least significant bit.
\<close>

definition BitmapTest :: "(nat \<Rightarrow> byte) \<Rightarrow> nat \<Rightarrow> bool" where
  "BitmapTest bitmap idx = bit (bitmap (idx div 8)) (idx mod 8)"

text \<open>\<^verbatim>\<open>Substitute\<close> at the one format string of \<^verbatim>\<open>BadTypeStatus\<close>.\<close>

definition BadTypeStatus :: "string \<Rightarrow> ColumnSchema \<Rightarrow> Status" where
  "BadTypeStatus provided_type_name col =
     InvalidArgument (''invalid type '' @ provided_type_name @ '' provided for column '' @
       [CHR 0x27] @ name col @ [CHR 0x27] @ '' (expected '' @ ti_name (type_info col) @ '')'')"

definition IsNull :: "RowPtr \<Rightarrow> int \<Rightarrow> bool outcome" where
  "IsNull r col_idx =
     (case column (schema r) col_idx of
        None \<Rightarrow> Undefined
      | Some col \<Rightarrow>
          if \<not> is_nullable col then Returns False
          else Returns (BitmapTest (\<lambda>k. row_data r (byte_size (schema r) + k))
                          (nat col_idx)))"

text \<open>
  The name-based predicate returns a plain \<^verbatim>\<open>bool\<close>; the lookup is wrapped in
  \<^verbatim>\<open>CHECK_OK\<close>, which terminates the process on a status that is not OK.
\<close>

definition IsNull_name :: "RowPtr \<Rightarrow> string \<Rightarrow> bool outcome" where
  "IsNull_name r col_name =
     (case FindColumn (schema r) col_name of
        (st, col_idx) \<Rightarrow> if \<not> ok st then Fatal st else IsNull r col_idx)"

text \<open>
  The getter template, by index. The destination \<open>val\<close> is the object representation
  of \<^verbatim>\<open>*val\<close>; the result pairs the status with the destination after the call.
\<close>

definition Get :: "RowPtr \<Rightarrow> TypeTraits \<Rightarrow> int \<Rightarrow> byte list \<Rightarrow> (Status \<times> byte list) outcome" where
  "Get r T col_idx val =
     (case column (schema r) col_idx of
        None \<Rightarrow> Undefined
      | Some col \<Rightarrow>
          if ti_type (type_info col) \<noteq> tt_type T
          then Returns (BadTypeStatus (tt_name T) col, val)
          else
            (case (if is_nullable col then IsNull r col_idx else Returns False) of
               Undefined \<Rightarrow> Undefined
             | Fatal st \<Rightarrow> Fatal st
             | Returns null \<Rightarrow>
                 if null then Returns (NotFound ''column is NULL'', val)
                 else Returns (OK, read_bytes (row_data r) (byte_offset col) (tt_size T))))"

text \<open>The getter template, by name: \<^verbatim>\<open>RETURN_NOT_OK\<close> on the lookup, then the index path.\<close>

definition Get_name :: "RowPtr \<Rightarrow> TypeTraits \<Rightarrow> string \<Rightarrow> byte list \<Rightarrow> (Status \<times> byte list) outcome" where
  "Get_name r T col_name val =
     (case FindColumn (schema r) col_name of
        (st, col_idx) \<Rightarrow> if \<not> ok st then Returns (st, val) else Get r T col_idx val)"

text \<open>\<^verbatim>\<open>cell(col_idx)\<close>: the pointer \<^verbatim>\<open>row_data_ + column_offset(col_idx)\<close>, unchecked.\<close>

definition cell :: "RowPtr \<Rightarrow> int \<Rightarrow> (nat \<Rightarrow> byte) outcome" where
  "cell r col_idx =
     (case column_offset (schema r) col_idx of
        None \<Rightarrow> Undefined
      | Some off \<Rightarrow> Returns (\<lambda>k. row_data r (off + k)))"

definition IsDeleted :: "RowPtr \<Rightarrow> byte list \<Rightarrow> (Status \<times> byte list) outcome" where
  "IsDeleted r val =
     (let col_idx = first_is_deleted_virtual_column_idx (schema r) in
      if col_idx = kColumnNotFound
      then Returns (NotFound ''IS_DELETED virtual column not found'', val)
      else Get r (TypeTraits IS_DELETED) col_idx val)"

subsection \<open>The public getters\<close>

text \<open>Each public getter is the template at the traits of its logical type.\<close>

definition GetBool :: "RowPtr \<Rightarrow> int \<Rightarrow> byte list \<Rightarrow> (Status \<times> byte list) outcome" where
  "GetBool r col_idx val = Get r (TypeTraits BOOL) col_idx val"

definition GetInt8 :: "RowPtr \<Rightarrow> int \<Rightarrow> byte list \<Rightarrow> (Status \<times> byte list) outcome" where
  "GetInt8 r col_idx val = Get r (TypeTraits INT8) col_idx val"

definition GetInt16 :: "RowPtr \<Rightarrow> int \<Rightarrow> byte list \<Rightarrow> (Status \<times> byte list) outcome" where
  "GetInt16 r col_idx val = Get r (TypeTraits INT16) col_idx val"

definition GetInt32 :: "RowPtr \<Rightarrow> int \<Rightarrow> byte list \<Rightarrow> (Status \<times> byte list) outcome" where
  "GetInt32 r col_idx val = Get r (TypeTraits INT32) col_idx val"

definition GetInt64 :: "RowPtr \<Rightarrow> int \<Rightarrow> byte list \<Rightarrow> (Status \<times> byte list) outcome" where
  "GetInt64 r col_idx val = Get r (TypeTraits INT64) col_idx val"

definition GetUnixTimeMicros :: "RowPtr \<Rightarrow> int \<Rightarrow> byte list \<Rightarrow> (Status \<times> byte list) outcome" where
  "GetUnixTimeMicros r col_idx micros_since_utc_epoch =
     Get r (TypeTraits UNIXTIME_MICROS) col_idx micros_since_utc_epoch"

definition GetDate :: "RowPtr \<Rightarrow> int \<Rightarrow> byte list \<Rightarrow> (Status \<times> byte list) outcome" where
  "GetDate r col_idx days_since_unix_epoch =
     Get r (TypeTraits DATE) col_idx days_since_unix_epoch"

definition GetFloat :: "RowPtr \<Rightarrow> int \<Rightarrow> byte list \<Rightarrow> (Status \<times> byte list) outcome" where
  "GetFloat r col_idx val = Get r (TypeTraits FLOAT) col_idx val"

definition GetDouble :: "RowPtr \<Rightarrow> int \<Rightarrow> byte list \<Rightarrow> (Status \<times> byte list) outcome" where
  "GetDouble r col_idx val = Get r (TypeTraits DOUBLE) col_idx val"

definition GetString :: "RowPtr \<Rightarrow> int \<Rightarrow> byte list \<Rightarrow> (Status \<times> byte list) outcome" where
  "GetString r col_idx val = Get r (TypeTraits STRING) col_idx val"

definition GetBinary :: "RowPtr \<Rightarrow> int \<Rightarrow> byte list \<Rightarrow> (Status \<times> byte list) outcome" where
  "GetBinary r col_idx val = Get r (TypeTraits BINARY) col_idx val"

definition GetVarchar :: "RowPtr \<Rightarrow> int \<Rightarrow> byte list \<Rightarrow> (Status \<times> byte list) outcome" where
  "GetVarchar r col_idx val = Get r (TypeTraits VARCHAR) col_idx val"

definition GetBool_name :: "RowPtr \<Rightarrow> string \<Rightarrow> byte list \<Rightarrow> (Status \<times> byte list) outcome" where
  "GetBool_name r col_name val = Get_name r (TypeTraits BOOL) col_name val"

definition GetInt8_name :: "RowPtr \<Rightarrow> string \<Rightarrow> byte list \<Rightarrow> (Status \<times> byte list) outcome" where
  "GetInt8_name r col_name val = Get_name r (TypeTraits INT8) col_name val"

definition GetInt16_name :: "RowPtr \<Rightarrow> string \<Rightarrow> byte list \<Rightarrow> (Status \<times> byte list) outcome" where
  "GetInt16_name r col_name val = Get_name r (TypeTraits INT16) col_name val"

definition GetInt32_name :: "RowPtr \<Rightarrow> string \<Rightarrow> byte list \<Rightarrow> (Status \<times> byte list) outcome" where
  "GetInt32_name r col_name val = Get_name r (TypeTraits INT32) col_name val"

definition GetInt64_name :: "RowPtr \<Rightarrow> string \<Rightarrow> byte list \<Rightarrow> (Status \<times> byte list) outcome" where
  "GetInt64_name r col_name val = Get_name r (TypeTraits INT64) col_name val"

definition GetUnixTimeMicros_name :: "RowPtr \<Rightarrow> string \<Rightarrow> byte list \<Rightarrow> (Status \<times> byte list) outcome" where
  "GetUnixTimeMicros_name r col_name micros_since_utc_epoch =
     Get_name r (TypeTraits UNIXTIME_MICROS) col_name micros_since_utc_epoch"

definition GetDate_name :: "RowPtr \<Rightarrow> string \<Rightarrow> byte list \<Rightarrow> (Status \<times> byte list) outcome" where
  "GetDate_name r col_name days_since_unix_epoch =
     Get_name r (TypeTraits DATE) col_name days_since_unix_epoch"

definition GetFloat_name :: "RowPtr \<Rightarrow> string \<Rightarrow> byte list \<Rightarrow> (Status \<times> byte list) outcome" where
  "GetFloat_name r col_name val = Get_name r (TypeTraits FLOAT) col_name val"

definition GetDouble_name :: "RowPtr \<Rightarrow> string \<Rightarrow> byte list \<Rightarrow> (Status \<times> byte list) outcome" where
  "GetDouble_name r col_name val = Get_name r (TypeTraits DOUBLE) col_name val"

definition GetString_name :: "RowPtr \<Rightarrow> string \<Rightarrow> byte list \<Rightarrow> (Status \<times> byte list) outcome" where
  "GetString_name r col_name val = Get_name r (TypeTraits STRING) col_name val"

definition GetBinary_name :: "RowPtr \<Rightarrow> string \<Rightarrow> byte list \<Rightarrow> (Status \<times> byte list) outcome" where
  "GetBinary_name r col_name val = Get_name r (TypeTraits BINARY) col_name val"

definition GetVarchar_name :: "RowPtr \<Rightarrow> string \<Rightarrow> byte list \<Rightarrow> (Status \<times> byte list) outcome" where
  "GetVarchar_name r col_name val = Get_name r (TypeTraits VARCHAR) col_name val"

subsection \<open>Decimal widening\<close>

text \<open>
  The integer a \<^verbatim>\<open>memcpy\<close> leaves in an \<^verbatim>\<open>intN_t\<close>: the bytes in address order, least
  significant first (the byte order of the platforms the client is built for).
\<close>

fun le_nat :: "byte list \<Rightarrow> nat" where
  "le_nat [] = 0"
| "le_nat (b # bs) = unat b + 256 * le_nat bs"

definition load_int32 :: "byte list \<Rightarrow> 32 word" where
  "load_int32 bs = word_of_nat (le_nat bs)"

definition load_int64 :: "byte list \<Rightarrow> 64 word" where
  "load_int64 bs = word_of_nat (le_nat bs)"

definition load_int128 :: "byte list \<Rightarrow> 128 word" where
  "load_int128 bs = word_of_nat (le_nat bs)"

text \<open>
  The locals \<^verbatim>\<open>i32_val\<close>, \<^verbatim>\<open>i64_val\<close> and \<^verbatim>\<open>i128_val\<close> are uninitialised; they are read
  only after the getter has overwritten them, so their first contents (here zero bytes)
  never reach the result. The assignment \<^verbatim>\<open>*val = i32_val\<close> converts a signed integer
  to the wider signed type: \<open>scast\<close>.
\<close>

definition GetUnscaledDecimal :: "RowPtr \<Rightarrow> int \<Rightarrow> 128 word \<Rightarrow> (Status \<times> 128 word) outcome" where
  "GetUnscaledDecimal r col_idx val =
     (case column (schema r) col_idx of
        None \<Rightarrow> Undefined
      | Some col \<Rightarrow>
          (case ti_type (type_info col) of
             DECIMAL32 \<Rightarrow>
               (case Get r (TypeTraits DECIMAL32) col_idx (replicate 4 0) of
                  Undefined \<Rightarrow> Undefined
                | Fatal st \<Rightarrow> Fatal st
                | Returns (st, i32_val) \<Rightarrow>
                    if \<not> ok st then Returns (st, val)
                    else Returns (OK, scast (load_int32 i32_val)))
           | DECIMAL64 \<Rightarrow>
               (case Get r (TypeTraits DECIMAL64) col_idx (replicate 8 0) of
                  Undefined \<Rightarrow> Undefined
                | Fatal st \<Rightarrow> Fatal st
                | Returns (st, i64_val) \<Rightarrow>
                    if \<not> ok st then Returns (st, val)
                    else Returns (OK, scast (load_int64 i64_val)))
           | DECIMAL128 \<Rightarrow>
               (case Get r (TypeTraits DECIMAL128) col_idx (replicate 16 0) of
                  Undefined \<Rightarrow> Undefined
                | Fatal st \<Rightarrow> Fatal st
                | Returns (st, i128_val) \<Rightarrow>
                    if \<not> ok st then Returns (st, val)
                    else Returns (OK, load_int128 i128_val))
           | _ \<Rightarrow>
               Returns (InvalidArgument (''invalid type '' @ ti_name (type_info col) @
                          '' provided for column '' @ [CHR 0x27] @ name col @ [CHR 0x27] @
                          '' (expected decimal)''), val)))"

definition GetUnscaledDecimal_name :: "RowPtr \<Rightarrow> string \<Rightarrow> 128 word \<Rightarrow> (Status \<times> 128 word) outcome" where
  "GetUnscaledDecimal_name r col_name val =
     (case FindColumn (schema r) col_name of
        (st, col_idx) \<Rightarrow>
          if \<not> ok st then Returns (st, val) else GetUnscaledDecimal r col_idx val)"

subsection \<open>Rendering\<close>

text \<open>\<^verbatim>\<open>RowCell\<close>: a row and a column index, with the two accessors the formatters call.\<close>

record RowCell =
  rc_row :: RowPtr
  rc_col_idx :: int

definition is_null :: "RowCell \<Rightarrow> bool outcome" where
  "is_null c = IsNull (rc_row c) (rc_col_idx c)"

definition ptr :: "RowCell \<Rightarrow> (nat \<Rightarrow> byte) outcome" where
  "ptr c = cell (rc_row c) (rc_col_idx c)"

text \<open>
  Modelled from the spec: \<^verbatim>\<open>ScopedDisableRedaction\<close> (kudu/util/logging.h) is not part
  of the source file. It is a scoped override of the redaction flag: constructing it
  saves the flag and switches redaction off, leaving the scope puts the saved flag back.
\<close>

definition ScopedDisableRedaction :: "bool \<Rightarrow> bool \<times> bool" where
  "ScopedDisableRedaction redact = (redact, False)"

definition ScopedDisableRedaction_exit :: "bool \<Rightarrow> bool \<Rightarrow> bool" where
  "ScopedDisableRedaction_exit old_val redact = old_val"

text \<open>
  Modelled from the spec: \<^verbatim>\<open>ColumnSchema::DebugCellAppend\<close> and
  \<^verbatim>\<open>ColumnSchema::DebugCSVCellAppend\<close> are not part of the source file. Each appends
  the rendering of one cell to the buffer. The rendering itself is a parameter, a
  printer that sees the redaction flag in force, the column and the cell.
\<close>

type_synonym cell_printer = "bool \<Rightarrow> ColumnSchema \<Rightarrow> RowCell \<Rightarrow> string"

definition DebugCellAppend :: "cell_printer \<Rightarrow> bool \<Rightarrow> ColumnSchema \<Rightarrow> RowCell \<Rightarrow> string \<Rightarrow> string" where
  "DebugCellAppend pr redact col c ret = ret @ pr redact col c"

definition DebugCSVCellAppend :: "cell_printer \<Rightarrow> bool \<Rightarrow> ColumnSchema \<Rightarrow> RowCell \<Rightarrow> string \<Rightarrow> string" where
  "DebugCSVCellAppend pr redact col c ret = ret @ pr redact col c"

function ToString_loop :: "cell_printer \<Rightarrow> RowPtr \<Rightarrow> bool \<Rightarrow> nat \<Rightarrow> bool \<Rightarrow> string \<Rightarrow> string" where
  "ToString_loop pr r redact i first ret =
     (if i < num_columns (schema r) then
        let ret1 = (if \<not> first then ret @ '', '' else ret);
            c = \<lparr>rc_row = r, rc_col_idx = int i\<rparr>;
            ret2 = DebugCellAppend pr redact (cols (schema r) ! i) c ret1
        in ToString_loop pr r redact (Suc i) False ret2
      else ret)"
  by pat_completeness auto
termination
  by (relation "measure (\<lambda>(pr, r, redact, i, first, ret). num_columns (schema r) - i)") auto

declare ToString_loop.simps [simp del]

text \<open>The result pairs the string with the redaction flag left behind.\<close>

definition ToString :: "cell_printer \<Rightarrow> RowPtr \<Rightarrow> bool \<Rightarrow> string \<times> bool" where
  "ToString pr r redact =
     (case ScopedDisableRedaction redact of
        (old_val, redact1) \<Rightarrow>
          let ret = [];
              ret = ret @ ''('';
              ret = ToString_loop pr r redact1 0 True ret;
              ret = ret @ '')''
          in (ret, ScopedDisableRedaction_exit old_val redact1))"

function ToCSVRowString_loop :: "cell_printer \<Rightarrow> RowPtr \<Rightarrow> bool \<Rightarrow> nat \<Rightarrow> bool \<Rightarrow> string \<Rightarrow> string" where
  "ToCSVRowString_loop pr r redact i first ret =
     (if i < num_columns (schema r) then
        let ret1 = (if \<not> first then ret @ '','' else ret);
            c = \<lparr>rc_row = r, rc_col_idx = int i\<rparr>;
            ret2 = DebugCSVCellAppend pr redact (cols (schema r) ! i) c ret1
        in ToCSVRowString_loop pr r redact (Suc i) False ret2
      else ret)"
  by pat_completeness auto
termination
  by (relation "measure (\<lambda>(pr, r, redact, i, first, ret). num_columns (schema r) - i)") auto

declare ToCSVRowString_loop.simps [simp del]

text \<open>
  \<open>ret\<close> is the caller's buffer as it is on entry. It is cleared before the scoped
  override is installed.
\<close>

definition ToCSVRowString :: "cell_printer \<Rightarrow> RowPtr \<Rightarrow> bool \<Rightarrow> string \<Rightarrow> string \<times> bool" where
  "ToCSVRowString pr r redact ret =
     (let ret = [] in
      case ScopedDisableRedaction redact of
        (old_val, redact1) \<Rightarrow>
          let ret = ToCSVRowString_loop pr r redact1 0 True ret
          in (ret, ScopedDisableRedaction_exit old_val redact1))"

subsection \<open>The specification's reading, for comparison\<close>

fun join_with :: "string \<Rightarrow> string list \<Rightarrow> string" where
  "join_with sep [] = []"
| "join_with sep [x] = x"
| "join_with sep (x # y # ys) = x @ sep @ join_with sep (y # ys)"

definition cell_at :: "RowPtr \<Rightarrow> nat \<Rightarrow> RowCell" where
  "cell_at r i = \<lparr>rc_row = r, rc_col_idx = int i\<rparr>"

text \<open>The fields of a row in schema order, each rendered with redaction off.\<close>

definition row_fields :: "cell_printer \<Rightarrow> RowPtr \<Rightarrow> string list" where
  "row_fields pr r = map (\<lambda>i. pr False (cols (schema r) ! i) (cell_at r i)) [0 ..< num_columns (schema r)]"

text \<open>
  The null bitmap as the specification describes it: one bit per nullable column, in
  declaration order, so that the bit of a nullable column is numbered by the nullable
  columns declared before it.
\<close>

definition spec_null_bit_index :: "Schema \<Rightarrow> nat \<Rightarrow> nat" where
  "spec_null_bit_index s i = length (filter is_nullable (take i (cols s)))"

definition spec_IsNull :: "RowPtr \<Rightarrow> int \<Rightarrow> bool outcome" where
  "spec_IsNull r col_idx =
     (case column (schema r) col_idx of
        None \<Rightarrow> Undefined
      | Some col \<Rightarrow>
          if \<not> is_nullable col then Returns False
          else Returns (BitmapTest (\<lambda>k. row_data r (byte_size (schema r) + k))
                          (spec_null_bit_index (schema r) (nat col_idx))))"

text \<open>
  Modelled from the spec: the rendering \<^verbatim>\<open>DebugCSVCellAppend\<close> appends is not part of
  the source file. A null field renders as a marker; a string-typed field renders
  between double quotes, each embedded double quote doubled; every other field renders
  as its natural text, unquoted. The marker and the natural text of a type are
  parameters.
\<close>

definition is_string_type :: "DataType \<Rightarrow> bool" where
  "is_string_type t = (t = STRING \<or> t = VARCHAR)"

fun csv_escape :: "string \<Rightarrow> string" where
  "csv_escape [] = []"
| "csv_escape (ch # cs) =
     (if ch = CHR 0x22 then [CHR 0x22, CHR 0x22] else [ch]) @ csv_escape cs"

definition csv_cell :: "(ColumnSchema \<Rightarrow> string) \<Rightarrow> (ColumnSchema \<Rightarrow> RowCell \<Rightarrow> string) \<Rightarrow> cell_printer" where
  "csv_cell null_marker natural_text redact col c =
     (if is_null c = Returns True then null_marker col
      else if is_string_type (ti_type (type_info col))
        then [CHR 0x22] @ csv_escape (natural_text col c) @ [CHR 0x22]
      else natural_text col c)"

subsection \<open>Example rows\<close>

text \<open>A buffer as the memory behind a row pointer; bytes past the buffer read as zero.\<close>

definition mem_of :: "byte list \<Rightarrow> nat \<Rightarrow> byte" where
  "mem_of bs k = (if k < length bs then bs ! k else 0)"

text \<open>
  A schema \<open>{id: INT32 not null, price: DECIMAL32 nullable}\<close>: two four-byte slots
  and the null bitmap in the byte after them.
\<close>

definition price_schema :: Schema where
  "price_schema = \<lparr>cols = [
      \<lparr>name = ''id'', type_info = GetTypeInfo INT32, is_nullable = False, byte_offset = 0\<rparr>,
      \<lparr>name = ''price'', type_info = GetTypeInfo DECIMAL32, is_nullable = True, byte_offset = 4\<rparr>],
    byte_size = 8\<rparr>"

definition price_row :: "byte list \<Rightarrow> RowPtr" where
  "price_row bs = \<lparr>schema = price_schema, row_data = mem_of bs\<rparr>"

text \<open>
  A schema \<open>{id: INT32 not null, name: STRING nullable}\<close>, and a schema with a
  deleted-row virtual column.
\<close>

definition name_schema :: Schema where
  "name_schema = \<lparr>cols = [
      \<lparr>name = ''id'', type_info = GetTypeInfo INT32, is_nullable = False, byte_offset = 0\<rparr>,
      \<lparr>name = ''name'', type_info = GetTypeInfo STRING, is_nullable = True, byte_offset = 4\<rparr>],
    byte_size = 20\<rparr>"

definition deleted_schema :: Schema where
  "deleted_schema = \<lparr>cols = [
      \<lparr>name = ''id'', type_info = GetTypeInfo INT32, is_nullable = False, byte_offset = 0\<rparr>,
      \<lparr>name = ''is_deleted'', type_info = GetTypeInfo IS_DELETED, is_nullable = False, byte_offset = 4\<rparr>],
    byte_size = 5\<rparr>"

definition name_row :: "byte list \<Rightarrow> RowPtr" where
  "name_row bs = \<lparr>schema = name_schema, row_data = mem_of bs\<rparr>"

text \<open>
  A schema with a column of each decimal width, a row that stores \<open>-7\<close> in each of
  them, and a row whose \<open>d32\<close> and \<open>d64\<close> values are null.
\<close>

definition decimal_schema :: Schema where
  "decimal_schema = \<lparr>cols = [
      \<lparr>name = ''id'', type_info = GetTypeInfo INT32, is_nullable = False, byte_offset = 0\<rparr>,
      \<lparr>name = ''d32'', type_info = GetTypeInfo DECIMAL32, is_nullable = True, byte_offset = 4\<rparr>,
      \<lparr>name = ''d64'', type_info = GetTypeInfo DECIMAL64, is_nullable = True, byte_offset = 8\<rparr>,
      \<lparr>name = ''d128'', type_info = GetTypeInfo DECIMAL128, is_nullable = False, byte_offset = 16\<rparr>],
    byte_size = 32\<rparr>"

definition minus_seven_row :: RowPtr where
  "minus_seven_row = \<lparr>schema = decimal_schema, row_data = mem_of
     [1, 0, 0, 0,
      0xF9, 0xFF, 0xFF, 0xFF,
      0xF9, 0xFF, 0xFF, 0xFF, 0xFF, 0xFF, 0xFF, 0xFF,
      0xF9, 0xFF, 0xFF, 0xFF, 0xFF, 0xFF, 0xFF, 0xFF, 0xFF, 0xFF, 0xFF, 0xFF, 0xFF, 0xFF, 0xFF, 0xFF,
      0]\<rparr>"

definition null_decimal_row :: RowPtr where
  "null_decimal_row = \<lparr>schema = decimal_schema, row_data = (\<lambda>k. if k = 32 then 6 else 0)\<rparr>"

text \<open>A printer whose output shows the redaction flag it was called under.\<close>

definition flag_printer :: cell_printer where
  "flag_printer redact col c = (if redact then ''<redacted>'' else name col)"

text \<open>The natural text of the row \<open>{id = 1, name = "a,b"}\<close>.\<close>

definition ab_text :: "ColumnSchema \<Rightarrow> RowCell \<Rightarrow> string" where
  "ab_text col c = (if name col = ''id'' then ''1'' else ''a,b'')"

section \<open>Properties\<close>

subsection \<open>Auxiliary facts\<close>

lemma tt_simps [simp]:
  "tt_type (TypeTraits t) = t" "tt_size (TypeTraits t) = cpp_size t" "tt_name (TypeTraits t) = type_name t"
  by (simp_all add: TypeTraits_def)

lemma column_price_1:
  "column price_schema 1 = Some \<lparr>name = ''price'', type_info = GetTypeInfo DECIMAL32, is_nullable = True, byte_offset = 4\<rparr>"
  by (simp add: column_def price_schema_def)

lemma column_price_0:
  "column price_schema 0 = Some \<lparr>name = ''id'', type_info = GetTypeInfo INT32, is_nullable = False, byte_offset = 0\<rparr>"
  by (simp add: column_def price_schema_def)

lemma column_deleted_1:
  "column deleted_schema 1 = Some \<lparr>name = ''is_deleted'', type_info = GetTypeInfo IS_DELETED, is_nullable = False, byte_offset = 4\<rparr>"
  by (simp add: column_def deleted_schema_def)

lemma column_decimal:
  "column decimal_schema 0 = Some \<lparr>name = ''id'', type_info = GetTypeInfo INT32, is_nullable = False, byte_offset = 0\<rparr>"
  "column decimal_schema 1 = Some \<lparr>name = ''d32'', type_info = GetTypeInfo DECIMAL32, is_nullable = True, byte_offset = 4\<rparr>"
  "column decimal_schema 2 = Some \<lparr>name = ''d64'', type_info = GetTypeInfo DECIMAL64, is_nullable = True, byte_offset = 8\<rparr>"
  "column decimal_schema 3 = Some \<lparr>name = ''d128'', type_info = GetTypeInfo DECIMAL128, is_nullable = False, byte_offset = 16\<rparr>"
  by (simp_all add: column_def decimal_schema_def)

lemma Get_not_null:
  "column (schema r) col_idx = Some col \<Longrightarrow> ti_type (type_info col) = tt_type T \<Longrightarrow>
   IsNull r col_idx = Returns False \<Longrightarrow>
   Get r T col_idx val = Returns (OK, read_bytes (row_data r) (byte_offset col) (tt_size T))"
  by (auto simp add: Get_def)

lemma Get_is_null:
  "column (schema r) col_idx = Some col \<Longrightarrow> ti_type (type_info col) = tt_type T \<Longrightarrow>
   IsNull r col_idx = Returns True \<Longrightarrow>
   Get r T col_idx val = Returns (NotFound ''column is NULL'', val)"
  by (auto simp add: Get_def IsNull_def split: if_splits)

lemma find_column_from_absent:
  "col_name \<notin> set (map name cs) \<Longrightarrow> find_column_from i cs col_name = kColumnNotFound"
  by (induction cs arbitrary: i) auto

lemma find_column_from_present:
  "col_name \<in> set (map name cs) \<Longrightarrow>
   \<exists>k < length cs. find_column_from i cs col_name = int (i + k) \<and> name (cs ! k) = col_name
      \<and> (\<forall>j < k. name (cs ! j) \<noteq> col_name)"
proof (induction cs arbitrary: i)
  case Nil
  then show ?case by simp
next
  case (Cons c cs)
  show ?case
  proof (cases "name c = col_name")
    case True
    then show ?thesis by (intro exI [of _ 0]) simp
  next
    case False
    with Cons.prems have "col_name \<in> set (map name cs)" by auto
    from Cons.IH [OF this, of "Suc i"] obtain k where k: "k < length cs"
      "find_column_from (Suc i) cs col_name = int (Suc i + k)" "name (cs ! k) = col_name"
      "\<forall>j < k. name (cs ! j) \<noteq> col_name" by blast
    have "\<forall>j < Suc k. name ((c # cs) ! j) \<noteq> col_name"
      using False k(4) by (auto simp: less_Suc_eq_0_disj)
    with k False show ?thesis
      by (intro exI [of _ "Suc k"]) simp
  qed
qed

lemma FindColumn_absent:
  "col_name \<notin> set (map name (cols s)) \<Longrightarrow>
   FindColumn s col_name = (NotFound (''No such column: '' @ col_name), kColumnNotFound)"
  by (simp add: FindColumn_def find_column_from_absent Let_def)

lemma FindColumn_present:
  assumes "col_name \<in> set (map name (cols s))"
  shows "\<exists>k < length (cols s). FindColumn s col_name = (OK, int k) \<and> name (cols s ! k) = col_name
      \<and> (\<forall>j < k. name (cols s ! j) \<noteq> col_name)"
proof -
  from find_column_from_present [OF assms, of 0] obtain k where k: "k < length (cols s)"
    "find_column_from 0 (cols s) col_name = int k" "name (cols s ! k) = col_name"
    "\<forall>j < k. name (cols s ! j) \<noteq> col_name" by auto
  then have "FindColumn s col_name = (OK, int k)"
    by (simp add: FindColumn_def Let_def kColumnNotFound_def)
  with k show ?thesis by blast
qed

lemma first_is_deleted_from_absent:
  "\<forall>c \<in> set cs. ti_type (type_info c) \<noteq> IS_DELETED \<Longrightarrow> first_is_deleted_from i cs = kColumnNotFound"
  by (induction cs arbitrary: i) auto

lemma first_is_deleted_from_present:
  "k < length cs \<Longrightarrow> ti_type (type_info (cs ! k)) = IS_DELETED \<Longrightarrow>
   \<forall>j < k. ti_type (type_info (cs ! j)) \<noteq> IS_DELETED \<Longrightarrow>
   first_is_deleted_from i cs = int (i + k)"
proof (induction cs arbitrary: i k)
  case Nil
  then show ?case by simp
next
  case (Cons c cs)
  show ?case
  proof (cases k)
    case 0
    with Cons.prems show ?thesis by simp
  next
    case (Suc k')
    with Cons.prems have c: "ti_type (type_info c) \<noteq> IS_DELETED" by auto
    from Suc Cons.prems have "\<forall>j < k'. ti_type (type_info (cs ! j)) \<noteq> IS_DELETED" by auto
    with Cons.IH [of k' "Suc i"] Suc Cons.prems c show ?thesis by simp
  qed
qed

lemma FindColumn_price: "FindColumn price_schema ''price'' = (OK, 1)"
  by (simp add: FindColumn_def price_schema_def Let_def kColumnNotFound_def)

lemma minus_seven_not_null:
  "IsNull minus_seven_row 1 = Returns False"
  "IsNull minus_seven_row 2 = Returns False"
  "IsNull minus_seven_row 3 = Returns False"
  by (simp_all add: IsNull_def minus_seven_row_def column_decimal)
     (simp_all add: decimal_schema_def BitmapTest_def mem_of_def)

lemma minus_seven_bytes:
  "read_bytes (row_data minus_seven_row) 4 4 = [0xF9, 0xFF, 0xFF, 0xFF]"
  "read_bytes (row_data minus_seven_row) 8 8 = [0xF9, 0xFF, 0xFF, 0xFF, 0xFF, 0xFF, 0xFF, 0xFF]"
  "read_bytes (row_data minus_seven_row) 16 16 =
     [0xF9, 0xFF, 0xFF, 0xFF, 0xFF, 0xFF, 0xFF, 0xFF, 0xFF, 0xFF, 0xFF, 0xFF, 0xFF, 0xFF, 0xFF, 0xFF]"
  by (simp_all add: minus_seven_row_def read_bytes_def mem_of_def upt_rec)

lemma load_minus_seven:
  "load_int32 [0xF9, 0xFF, 0xFF, 0xFF] = - 7"
  "load_int64 [0xF9, 0xFF, 0xFF, 0xFF, 0xFF, 0xFF, 0xFF, 0xFF] = - 7"
  "load_int128 [0xF9, 0xFF, 0xFF, 0xFF, 0xFF, 0xFF, 0xFF, 0xFF, 0xFF, 0xFF, 0xFF, 0xFF, 0xFF, 0xFF, 0xFF, 0xFF] = - 7"
  by (simp_all add: load_int32_def load_int64_def load_int128_def)

lemma null_decimal_is_null:
  "IsNull null_decimal_row 1 = Returns True"
  by (simp add: IsNull_def null_decimal_row_def column_decimal)
     (simp add: decimal_schema_def BitmapTest_def)

lemma ToCSVRowString_loop_eq:
  "i \<le> num_columns (schema r) \<Longrightarrow>
   ToCSVRowString_loop pr r redact i first ret =
     ret @ (if i < num_columns (schema r) \<and> \<not> first then '','' else [])
       @ join_with '','' (map (\<lambda>i. pr redact (cols (schema r) ! i) (cell_at r i)) [i ..< num_columns (schema r)])"
proof (induction pr r redact i first ret rule: ToCSVRowString_loop.induct)
  case (1 pr r redact i first ret)
  show ?case
  proof (cases "i < num_columns (schema r)")
    case False
    with "1.prems" show ?thesis
      by (subst ToCSVRowString_loop.simps) simp
  next
    case True
    note lt = True
    have step: "[i ..< num_columns (schema r)] = i # [Suc i ..< num_columns (schema r)]"
      using lt by (simp add: upt_rec)
    show ?thesis
    proof (cases "Suc i < num_columns (schema r)")
      case True
      have step2: "[Suc i ..< num_columns (schema r)] = Suc i # [Suc (Suc i) ..< num_columns (schema r)]"
        using True by (simp add: upt_rec)
      from True lt "1.IH" [OF lt refl refl refl] show ?thesis
        apply (subst ToCSVRowString_loop.simps)
        apply (simp add: Let_def DebugCSVCellAppend_def cell_at_def step)
        apply (simp add: step2)
        done
    next
      case False
      with lt have e: "Suc i = num_columns (schema r)" by simp
      from lt "1.IH" [OF lt refl refl refl] e show ?thesis
        apply (subst ToCSVRowString_loop.simps)
        apply (simp add: Let_def DebugCSVCellAppend_def cell_at_def step)
        done
    qed
  qed
qed

lemma ToString_loop_eq:
  "i \<le> num_columns (schema r) \<Longrightarrow>
   ToString_loop pr r redact i first ret =
     ret @ (if i < num_columns (schema r) \<and> \<not> first then '', '' else [])
       @ join_with '', '' (map (\<lambda>i. pr redact (cols (schema r) ! i) (cell_at r i)) [i ..< num_columns (schema r)])"
proof (induction pr r redact i first ret rule: ToString_loop.induct)
  case (1 pr r redact i first ret)
  show ?case
  proof (cases "i < num_columns (schema r)")
    case False
    with "1.prems" show ?thesis
      by (subst ToString_loop.simps) simp
  next
    case True
    note lt = True
    have step: "[i ..< num_columns (schema r)] = i # [Suc i ..< num_columns (schema r)]"
      using lt by (simp add: upt_rec)
    show ?thesis
    proof (cases "Suc i < num_columns (schema r)")
      case True
      have step2: "[Suc i ..< num_columns (schema r)] = Suc i # [Suc (Suc i) ..< num_columns (schema r)]"
        using True by (simp add: upt_rec)
      from True lt "1.IH" [OF lt refl refl refl] show ?thesis
        apply (subst ToString_loop.simps)
        apply (simp add: Let_def DebugCellAppend_def cell_at_def step)
        apply (simp add: step2)
        done
    next
      case False
      with lt have e: "Suc i = num_columns (schema r)" by simp
      from lt "1.IH" [OF lt refl refl refl] e show ?thesis
        apply (subst ToString_loop.simps)
        apply (simp add: Let_def DebugCellAppend_def cell_at_def step)
        done
    qed
  qed
qed

lemma ToCSVRowString_eq:
  "ToCSVRowString pr r redact ret = (join_with '','' (row_fields pr r), redact)"
  by (simp add: ToCSVRowString_def ScopedDisableRedaction_def ScopedDisableRedaction_exit_def
      ToCSVRowString_loop_eq row_fields_def)

lemma ToString_eq:
  "ToString pr r redact = (''('' @ join_with '', '' (row_fields pr r) @ '')'', redact)"
  by (simp add: ToString_def ScopedDisableRedaction_def ScopedDisableRedaction_exit_def
      ToString_loop_eq row_fields_def)

lemma row_fields_flag: "row_fields (\<lambda>b. pr False) r = row_fields pr r"
  by (simp add: row_fields_def)

lemma name_row_nulls:
  "is_null (cell_at (name_row []) 0) = Returns False"
  "is_null (cell_at (name_row []) (Suc 0)) = Returns False"
  "is_null (cell_at (name_row [0, 0, 0, 0, 0, 0, 0, 0, 0, 0, 0, 0, 0, 0, 0, 0, 0, 0, 0, 0, 2]) 0) = Returns False"
  "is_null (cell_at (name_row [0, 0, 0, 0, 0, 0, 0, 0, 0, 0, 0, 0, 0, 0, 0, 0, 0, 0, 0, 0, 2]) (Suc 0)) = Returns True"
  by (simp_all add: is_null_def cell_at_def IsNull_def name_row_def name_schema_def column_def
      BitmapTest_def mem_of_def)

lemma name_row_fields:
  "row_fields pr (name_row bs) =
     [pr False (cols name_schema ! 0) (cell_at (name_row bs) 0),
      pr False (cols name_schema ! Suc 0) (cell_at (name_row bs) (Suc 0))]"
  by (simp add: row_fields_def name_row_def num_columns_def name_schema_def upt_rec)

subsection \<open>The typed getters\<close>

text \<open>
  Claim C1. A typed getter called by index on a column whose declared logical type is
  not the type the getter asks for fails with the type-mismatch status that
  \<^verbatim>\<open>BadTypeStatus\<close> builds (an invalid-argument status). Its message names the requested
  type, the column and the column's actual type. The null bitmap is not consulted: the
  result is the same for every row, also one where the column is null, and the
  destination comes back as it was.
\<close>

theorem Get_type_mismatch:
  assumes "column (schema r) col_idx = Some col"
    and "ti_type (type_info col) \<noteq> tt_type T"
  shows "Get r T col_idx val =
     Returns (InvalidArgument (''invalid type '' @ tt_name T @ '' provided for column '' @
       [CHR 0x27] @ name col @ [CHR 0x27] @ '' (expected '' @ ti_name (type_info col) @ '')''), val)"
  using assms by (simp add: Get_def BadTypeStatus_def)

theorem Get_type_mismatch_witness:
  "column (schema (price_row [1, 0, 0, 0, 0xF9, 0xFF, 0xFF, 0xFF, 2])) 1 =
     Some \<lparr>name = ''price'', type_info = GetTypeInfo DECIMAL32, is_nullable = True, byte_offset = 4\<rparr>
   \<and> ti_type (GetTypeInfo DECIMAL32) \<noteq> tt_type (TypeTraits INT64)
   \<and> IsNull (price_row [1, 0, 0, 0, 0xF9, 0xFF, 0xFF, 0xFF, 2]) 1 = Returns True
   \<and> Get (price_row [1, 0, 0, 0, 0xF9, 0xFF, 0xFF, 0xFF, 2]) (TypeTraits INT64) 1 [9, 9, 9, 9, 9, 9, 9, 9] =
       Returns (InvalidArgument (''invalid type int64 provided for column '' @ [CHR 0x27] @ ''price'' @
                  [CHR 0x27] @ '' (expected decimal32)''), [9, 9, 9, 9, 9, 9, 9, 9])
   \<and> GetInt64 (price_row [1, 0, 0, 0, 0xF9, 0xFF, 0xFF, 0xFF, 2]) 1 [9, 9, 9, 9, 9, 9, 9, 9] =
       Returns (InvalidArgument (''invalid type int64 provided for column '' @ [CHR 0x27] @ ''price'' @
                  [CHR 0x27] @ '' (expected decimal32)''), [9, 9, 9, 9, 9, 9, 9, 9])"
proof -
  let ?r = "price_row [1, 0, 0, 0, 0xF9, 0xFF, 0xFF, 0xFF, 2]"
  let ?col = "\<lparr>name = ''price'', type_info = GetTypeInfo DECIMAL32, is_nullable = True, byte_offset = 4\<rparr>"
  have c: "column (schema ?r) 1 = Some ?col"
    by (simp add: price_row_def column_price_1)
  have t: "ti_type (type_info ?col) \<noteq> tt_type (TypeTraits INT64)"
    by (simp add: GetTypeInfo_def TypeTraits_def)
  have n: "IsNull ?r 1 = Returns True"
    by (simp add: IsNull_def c) (simp add: price_row_def price_schema_def BitmapTest_def mem_of_def)
  from Get_type_mismatch [OF c t, of "[9, 9, 9, 9, 9, 9, 9, 9]"] c t n show ?thesis
    by (simp add: GetTypeInfo_def GetInt64_def)
qed

text \<open>
  Claim C2. A typed getter called on a nullable column of the requested type whose bit in
  the row's null bitmap is set fails with the status \<^verbatim>\<open>NotFound("column is NULL")\<close> and
  leaves the destination as it was.
\<close>

theorem Get_null:
  assumes "column (schema r) col_idx = Some col"
    and "ti_type (type_info col) = tt_type T"
    and "is_nullable col"
    and "BitmapTest (\<lambda>k. row_data r (byte_size (schema r) + k)) (nat col_idx)"
  shows "Get r T col_idx val = Returns (NotFound ''column is NULL'', val)"
  using assms by (simp add: Get_def IsNull_def)

theorem Get_null_witness:
  "column (schema (price_row [1, 0, 0, 0, 0xF9, 0xFF, 0xFF, 0xFF, 2])) 1 =
     Some \<lparr>name = ''price'', type_info = GetTypeInfo DECIMAL32, is_nullable = True, byte_offset = 4\<rparr>
   \<and> ti_type (GetTypeInfo DECIMAL32) = tt_type (TypeTraits DECIMAL32)
   \<and> BitmapTest (\<lambda>k. row_data (price_row [1, 0, 0, 0, 0xF9, 0xFF, 0xFF, 0xFF, 2])
                       (byte_size (schema (price_row [1, 0, 0, 0, 0xF9, 0xFF, 0xFF, 0xFF, 2])) + k)) (nat 1)
   \<and> Get (price_row [1, 0, 0, 0, 0xF9, 0xFF, 0xFF, 0xFF, 2]) (TypeTraits DECIMAL32) 1 [9, 9, 9, 9] =
       Returns (NotFound ''column is NULL'', [9, 9, 9, 9])"
proof -
  let ?r = "price_row [1, 0, 0, 0, 0xF9, 0xFF, 0xFF, 0xFF, 2]"
  let ?col = "\<lparr>name = ''price'', type_info = GetTypeInfo DECIMAL32, is_nullable = True, byte_offset = 4\<rparr>"
  have c: "column (schema ?r) 1 = Some ?col"
    by (simp add: price_row_def column_price_1)
  have t: "ti_type (type_info ?col) = tt_type (TypeTraits DECIMAL32)"
    by (simp add: GetTypeInfo_def TypeTraits_def)
  have n: "is_nullable ?col" by simp
  have b: "BitmapTest (\<lambda>k. row_data ?r (byte_size (schema ?r) + k)) (nat 1)"
    by (simp add: price_row_def price_schema_def BitmapTest_def mem_of_def)
  from Get_null [OF c t n b, of "[9, 9, 9, 9]"] c t b show ?thesis
    by simp
qed

text \<open>
  Claim C3. A typed getter called on a column of the requested type whose value is not
  null succeeds, and the destination receives exactly \<^verbatim>\<open>sizeof(value)\<close> bytes: the bytes
  stored at \<^verbatim>\<open>row_data_ + column_offset(col_idx)\<close>, in address order.
\<close>

theorem Get_copies:
  assumes "column (schema r) col_idx = Some col"
    and "ti_type (type_info col) = tt_type T"
    and "IsNull r col_idx = Returns False"
  shows "Get r T col_idx val = Returns (OK, read_bytes (row_data r) (byte_offset col) (tt_size T))
    \<and> length (read_bytes (row_data r) (byte_offset col) (tt_size T)) = tt_size T
    \<and> (\<forall>k < tt_size T.
          read_bytes (row_data r) (byte_offset col) (tt_size T) ! k = row_data r (byte_offset col + k))"
  using assms by (auto simp add: Get_def IsNull_def read_bytes_def split: if_splits)

theorem Get_copies_witness:
  "column (schema (price_row [1, 0, 0, 0, 0xF9, 0xFF, 0xFF, 0xFF, 0])) 1 =
     Some \<lparr>name = ''price'', type_info = GetTypeInfo DECIMAL32, is_nullable = True, byte_offset = 4\<rparr>
   \<and> ti_type (GetTypeInfo DECIMAL32) = tt_type (TypeTraits DECIMAL32)
   \<and> IsNull (price_row [1, 0, 0, 0, 0xF9, 0xFF, 0xFF, 0xFF, 0]) 1 = Returns False
   \<and> Get (price_row [1, 0, 0, 0, 0xF9, 0xFF, 0xFF, 0xFF, 0]) (TypeTraits DECIMAL32) 1 [9, 9, 9, 9] =
       Returns (OK, [0xF9, 0xFF, 0xFF, 0xFF])"
proof -
  let ?r = "price_row [1, 0, 0, 0, 0xF9, 0xFF, 0xFF, 0xFF, 0]"
  let ?col = "\<lparr>name = ''price'', type_info = GetTypeInfo DECIMAL32, is_nullable = True, byte_offset = 4\<rparr>"
  have c: "column (schema ?r) 1 = Some ?col"
    by (simp add: price_row_def column_price_1)
  have t: "ti_type (type_info ?col) = tt_type (TypeTraits DECIMAL32)"
    by (simp add: GetTypeInfo_def TypeTraits_def)
  have n: "IsNull ?r 1 = Returns False"
    by (simp add: IsNull_def c) (simp add: price_row_def price_schema_def BitmapTest_def mem_of_def)
  have rd: "read_bytes (row_data ?r) 4 4 = [0xF9, 0xFF, 0xFF, 0xFF]"
    by (simp add: price_row_def read_bytes_def mem_of_def upt_rec)
  from Get_copies [OF c t n, of "[9, 9, 9, 9]"] c t n rd show ?thesis
    by (simp add: TypeTraits_def)
qed

subsection \<open>The null predicate\<close>

text \<open>
  Claim C4, as the specification words it: \<^verbatim>\<open>IsNull(col_idx)\<close> is false for a column
  that is not nullable, and for a nullable column it is that column's bit of a bitmap
  that holds one bit per nullable column, in declaration order. The code numbers the
  bits by column index instead. In the schema \<open>{id not null, price nullable}\<close> the
  column \<open>price\<close> is the first nullable column; with bit 0 of the bitmap set and bit 1
  clear, the specification's reading reports null and the code reports not null.
\<close>

theorem IsNull_spec_bitmap_counterexample:
  "IsNull (price_row [0, 0, 0, 0, 0, 0, 0, 0, 1]) 1 = Returns False
   \<and> spec_IsNull (price_row [0, 0, 0, 0, 0, 0, 0, 0, 1]) 1 = Returns True"
  by (simp add: IsNull_def spec_IsNull_def spec_null_bit_index_def price_row_def column_price_1)
     (simp add: price_schema_def BitmapTest_def mem_of_def)

text \<open>
  Claim C4, amended. \<^verbatim>\<open>IsNull(col_idx)\<close> is false for every column that is not
  nullable, whatever the row's bytes; for a nullable column it is bit \<open>col_idx\<close> of the
  bitmap stored immediately after the fixed-width region: the bitmap has a bit position
  for every column of the schema, numbered by column index.
\<close>

theorem IsNull_by_column_index:
  assumes "column (schema r) col_idx = Some col"
  shows "IsNull r col_idx =
     Returns (is_nullable col \<and>
        bit (row_data r (byte_size (schema r) + nat col_idx div 8)) (nat col_idx mod 8))"
  using assms by (simp add: IsNull_def BitmapTest_def)

theorem IsNull_by_column_index_witness:
  "column (schema (price_row [0, 0, 0, 0, 0, 0, 0, 0, 2])) 1 =
     Some \<lparr>name = ''price'', type_info = GetTypeInfo DECIMAL32, is_nullable = True, byte_offset = 4\<rparr>
   \<and> column (schema (price_row [0, 0, 0, 0, 0, 0, 0, 0, 3])) 0 =
     Some \<lparr>name = ''id'', type_info = GetTypeInfo INT32, is_nullable = False, byte_offset = 0\<rparr>
   \<and> IsNull (price_row [0, 0, 0, 0, 0, 0, 0, 0, 2]) 1 = Returns True
   \<and> IsNull (price_row [0, 0, 0, 0, 0, 0, 0, 0, 3]) 0 = Returns False"
proof -
  let ?r = "price_row [0, 0, 0, 0, 0, 0, 0, 0, 2]"
  let ?q = "price_row [0, 0, 0, 0, 0, 0, 0, 0, 3]"
  have c: "column (schema ?r) 1 =
     Some \<lparr>name = ''price'', type_info = GetTypeInfo DECIMAL32, is_nullable = True, byte_offset = 4\<rparr>"
    by (simp add: price_row_def column_price_1)
  have d: "column (schema ?q) 0 =
     Some \<lparr>name = ''id'', type_info = GetTypeInfo INT32, is_nullable = False, byte_offset = 0\<rparr>"
    by (simp add: price_row_def column_price_0)
  have b: "bit (row_data ?r (byte_size (schema ?r) + nat 1 div 8)) (nat 1 mod 8)"
    by (simp add: price_row_def price_schema_def mem_of_def)
  from IsNull_by_column_index [OF c] IsNull_by_column_index [OF d] c d b show ?thesis
    by simp
qed

subsection \<open>Names that the schema does not have\<close>

text \<open>
  Claim C5, as the specification words it: every name-based operation, the predicate
  \<^verbatim>\<open>IsNull(col_name)\<close> included, returns a column-not-found error for a name the schema
  does not have and never terminates the process. The predicate returns a plain
  \<^verbatim>\<open>bool\<close> and checks the lookup with \<^verbatim>\<open>CHECK_OK\<close>: on such a name the process is
  terminated.
\<close>

theorem IsNull_name_absent_counterexample:
  "IsNull_name (price_row [0, 0, 0, 0, 0, 0, 0, 0, 0]) ''zip'' = Fatal (NotFound ''No such column: zip'')"
  by (simp add: IsNull_name_def FindColumn_def price_row_def price_schema_def Let_def kColumnNotFound_def)

text \<open>
  Claim C5, amended. For a column name the schema does not have, every name-based typed
  getter and the name-based \<^verbatim>\<open>GetUnscaledDecimal\<close> return the not-found status of the
  lookup and leave the destination as it was; \<^verbatim>\<open>IsNull(col_name)\<close>, which has no status
  to return, fails its \<^verbatim>\<open>CHECK_OK\<close> and terminates the process.
\<close>

theorem absent_name:
  assumes "col_name \<notin> set (map name (cols (schema r)))"
  shows "Get_name r T col_name val = Returns (NotFound (''No such column: '' @ col_name), val)
    \<and> GetUnscaledDecimal_name r col_name dval = Returns (NotFound (''No such column: '' @ col_name), dval)
    \<and> IsNull_name r col_name = Fatal (NotFound (''No such column: '' @ col_name))"
  using FindColumn_absent [OF assms]
  by (simp add: Get_name_def GetUnscaledDecimal_name_def IsNull_name_def)

theorem absent_name_witness:
  "''zip'' \<notin> set (map name (cols (schema (price_row []))))
   \<and> Get_name (price_row []) (TypeTraits INT32) ''zip'' [9, 9, 9, 9] =
       Returns (NotFound ''No such column: zip'', [9, 9, 9, 9])
   \<and> GetUnscaledDecimal_name (price_row []) ''zip'' 5 = Returns (NotFound ''No such column: zip'', 5)
   \<and> IsNull_name (price_row []) ''zip'' = Fatal (NotFound ''No such column: zip'')"
proof -
  have a: "''zip'' \<notin> set (map name (cols (schema (price_row []))))"
    by (simp add: price_row_def price_schema_def)
  from absent_name [OF a, of "TypeTraits INT32" "[9, 9, 9, 9]" 5] a show ?thesis
    by simp
qed

subsection \<open>Decimal widening\<close>

text \<open>
  Claim C6. \<^verbatim>\<open>GetUnscaledDecimal(col_idx)\<close> dispatches on the column's decimal width. On a
  DECIMAL32, DECIMAL64 or DECIMAL128 column it reads through the getter of that width
  (so a null value is reported as such) and converts the stored integer to 128 bits with
  its sign: the signed value of the result is the signed value stored. On a column of
  any other logical type it fails with an invalid-argument status and leaves the
  destination as it was. In the example a row stores \<open>-7\<close> in a column of each width
  and each read yields the 128-bit value \<open>-7\<close>.
\<close>

theorem GetUnscaledDecimal_widens:
  assumes "column (schema r) col_idx = Some col"
  shows "(ti_type (type_info col) = DECIMAL32 \<and> IsNull r col_idx = Returns False \<longrightarrow>
            GetUnscaledDecimal r col_idx val =
              Returns (OK, scast (load_int32 (read_bytes (row_data r) (byte_offset col) 4)))
            \<and> sint (scast (load_int32 (read_bytes (row_data r) (byte_offset col) 4)) :: 128 word) =
                sint (load_int32 (read_bytes (row_data r) (byte_offset col) 4)))
       \<and> (ti_type (type_info col) = DECIMAL64 \<and> IsNull r col_idx = Returns False \<longrightarrow>
            GetUnscaledDecimal r col_idx val =
              Returns (OK, scast (load_int64 (read_bytes (row_data r) (byte_offset col) 8)))
            \<and> sint (scast (load_int64 (read_bytes (row_data r) (byte_offset col) 8)) :: 128 word) =
                sint (load_int64 (read_bytes (row_data r) (byte_offset col) 8)))
       \<and> (ti_type (type_info col) = DECIMAL128 \<and> IsNull r col_idx = Returns False \<longrightarrow>
            GetUnscaledDecimal r col_idx val =
              Returns (OK, load_int128 (read_bytes (row_data r) (byte_offset col) 16)))
       \<and> (ti_type (type_info col) \<in> {DECIMAL32, DECIMAL64, DECIMAL128}
            \<and> IsNull r col_idx = Returns True \<longrightarrow>
            GetUnscaledDecimal r col_idx val = Returns (NotFound ''column is NULL'', val))
       \<and> (ti_type (type_info col) \<noteq> DECIMAL32 \<and> ti_type (type_info col) \<noteq> DECIMAL64
            \<and> ti_type (type_info col) \<noteq> DECIMAL128 \<longrightarrow>
            GetUnscaledDecimal r col_idx val =
              Returns (InvalidArgument (''invalid type '' @ ti_name (type_info col) @
                 '' provided for column '' @ [CHR 0x27] @ name col @ [CHR 0x27] @
                 '' (expected decimal)''), val))"
proof (intro conjI impI)
  assume "ti_type (type_info col) \<in> {DECIMAL32, DECIMAL64, DECIMAL128}
            \<and> IsNull r col_idx = Returns True"
  with assms show "GetUnscaledDecimal r col_idx val = Returns (NotFound ''column is NULL'', val)"
    by (auto simp add: GetUnscaledDecimal_def Get_is_null)
next
  assume "ti_type (type_info col) = DECIMAL32 \<and> IsNull r col_idx = Returns False"
  with assms show "GetUnscaledDecimal r col_idx val =
      Returns (OK, scast (load_int32 (read_bytes (row_data r) (byte_offset col) 4)))"
    by (simp add: GetUnscaledDecimal_def Get_not_null)
next
  assume "ti_type (type_info col) = DECIMAL64 \<and> IsNull r col_idx = Returns False"
  with assms show "GetUnscaledDecimal r col_idx val =
      Returns (OK, scast (load_int64 (read_bytes (row_data r) (byte_offset col) 8)))"
    by (simp add: GetUnscaledDecimal_def Get_not_null)
next
  assume "ti_type (type_info col) = DECIMAL128 \<and> IsNull r col_idx = Returns False"
  with assms show "GetUnscaledDecimal r col_idx val =
      Returns (OK, load_int128 (read_bytes (row_data r) (byte_offset col) 16))"
    by (simp add: GetUnscaledDecimal_def Get_not_null)
next
  assume "ti_type (type_info col) \<noteq> DECIMAL32 \<and> ti_type (type_info col) \<noteq> DECIMAL64
            \<and> ti_type (type_info col) \<noteq> DECIMAL128"
  with assms show "GetUnscaledDecimal r col_idx val =
      Returns (InvalidArgument (''invalid type '' @ ti_name (type_info col) @
         '' provided for column '' @ [CHR 0x27] @ name col @ [CHR 0x27] @
         '' (expected decimal)''), val)"
    by (cases "ti_type (type_info col)") (simp_all add: GetUnscaledDecimal_def)
next
  show "sint (scast (load_int32 (read_bytes (row_data r) (byte_offset col) 4)) :: 128 word) =
      sint (load_int32 (read_bytes (row_data r) (byte_offset col) 4))"
    by (simp add: sint_up_scast is_up)
next
  show "sint (scast (load_int64 (read_bytes (row_data r) (byte_offset col) 8)) :: 128 word) =
      sint (load_int64 (read_bytes (row_data r) (byte_offset col) 8))"
    by (simp add: sint_up_scast is_up)
qed

theorem GetUnscaledDecimal_widens_witness:
  "IsNull minus_seven_row 1 = Returns False
   \<and> IsNull minus_seven_row 2 = Returns False
   \<and> IsNull minus_seven_row 3 = Returns False
   \<and> IsNull null_decimal_row 1 = Returns True
   \<and> GetUnscaledDecimal null_decimal_row 1 5 = Returns (NotFound ''column is NULL'', 5)
   \<and> GetUnscaledDecimal minus_seven_row 1 0 = Returns (OK, - 7)
   \<and> GetUnscaledDecimal minus_seven_row 2 0 = Returns (OK, - 7)
   \<and> GetUnscaledDecimal minus_seven_row 3 0 = Returns (OK, - 7)
   \<and> sint (- 7 :: 128 word) = - 7
   \<and> GetUnscaledDecimal minus_seven_row 0 0 =
       Returns (InvalidArgument (''invalid type int32 provided for column '' @ [CHR 0x27] @ ''id'' @
                  [CHR 0x27] @ '' (expected decimal)''), 0)"
proof -
  have c: "column (schema minus_seven_row) 0 = Some \<lparr>name = ''id'', type_info = GetTypeInfo INT32, is_nullable = False, byte_offset = 0\<rparr>"
    "column (schema minus_seven_row) 1 = Some \<lparr>name = ''d32'', type_info = GetTypeInfo DECIMAL32, is_nullable = True, byte_offset = 4\<rparr>"
    "column (schema minus_seven_row) 2 = Some \<lparr>name = ''d64'', type_info = GetTypeInfo DECIMAL64, is_nullable = True, byte_offset = 8\<rparr>"
    "column (schema minus_seven_row) 3 = Some \<lparr>name = ''d128'', type_info = GetTypeInfo DECIMAL128, is_nullable = False, byte_offset = 16\<rparr>"
    by (simp_all add: minus_seven_row_def column_decimal)
  have d: "column (schema null_decimal_row) 1 = Some \<lparr>name = ''d32'', type_info = GetTypeInfo DECIMAL32, is_nullable = True, byte_offset = 4\<rparr>"
    by (simp add: null_decimal_row_def column_decimal)
  have s: "sint (- 7 :: 128 word) = - 7" by simp
  from GetUnscaledDecimal_widens [OF c(1), of 0] GetUnscaledDecimal_widens [OF c(2), of 0]
    GetUnscaledDecimal_widens [OF c(3), of 0] GetUnscaledDecimal_widens [OF c(4), of 0]
    GetUnscaledDecimal_widens [OF d, of 5] s
  show ?thesis
    by (simp add: GetTypeInfo_def minus_seven_not_null null_decimal_is_null minus_seven_bytes
        load_minus_seven)
qed

subsection \<open>Access by name\<close>

text \<open>
  Claim C7. For every typed getter and for \<^verbatim>\<open>GetUnscaledDecimal\<close>, the name-based
  variant is the index-based variant at the index the schema resolves the name to: when
  the lookup yields index \<open>i\<close> the two calls agree on status and destination. A name
  that occurs in the schema does resolve, to a column of that name; for a name that does
  not occur the call fails with the lookup's not-found status.
\<close>

theorem name_getters_refine:
  "(FindColumn (schema r) col_name = (OK, i) \<longrightarrow>
      Get_name r T col_name val = Get r T i val
      \<and> GetUnscaledDecimal_name r col_name dval = GetUnscaledDecimal r i dval)
   \<and> (col_name \<in> set (map name (cols (schema r))) \<longrightarrow>
        (\<exists>k < length (cols (schema r)).
            FindColumn (schema r) col_name = (OK, int k) \<and> name (cols (schema r) ! k) = col_name))
   \<and> (col_name \<notin> set (map name (cols (schema r))) \<longrightarrow>
        (\<exists>st. IsNotFound st \<and> Get_name r T col_name val = Returns (st, val)
           \<and> GetUnscaledDecimal_name r col_name dval = Returns (st, dval)))"
proof (intro conjI impI)
  assume "FindColumn (schema r) col_name = (OK, i)"
  then show "Get_name r T col_name val = Get r T i val"
    and "GetUnscaledDecimal_name r col_name dval = GetUnscaledDecimal r i dval"
    by (simp_all add: Get_name_def GetUnscaledDecimal_name_def)
next
  assume "col_name \<in> set (map name (cols (schema r)))"
  from FindColumn_present [OF this]
  show "\<exists>k < length (cols (schema r)).
      FindColumn (schema r) col_name = (OK, int k) \<and> name (cols (schema r) ! k) = col_name"
    by blast
next
  assume "col_name \<notin> set (map name (cols (schema r)))"
  from FindColumn_absent [OF this]
  show "\<exists>st. IsNotFound st \<and> Get_name r T col_name val = Returns (st, val)
      \<and> GetUnscaledDecimal_name r col_name dval = Returns (st, dval)"
    by (intro exI [of _ "NotFound (''No such column: '' @ col_name)"])
       (simp add: Get_name_def GetUnscaledDecimal_name_def)
qed

theorem name_getters_refine_witness:
  "FindColumn (schema (price_row [1, 0, 0, 0, 0xF9, 0xFF, 0xFF, 0xFF, 0])) ''price'' = (OK, 1)
   \<and> ''price'' \<in> set (map name (cols (schema (price_row [1, 0, 0, 0, 0xF9, 0xFF, 0xFF, 0xFF, 0]))))
   \<and> ''zip'' \<notin> set (map name (cols (schema (price_row [1, 0, 0, 0, 0xF9, 0xFF, 0xFF, 0xFF, 0]))))
   \<and> Get_name (price_row [1, 0, 0, 0, 0xF9, 0xFF, 0xFF, 0xFF, 0]) (TypeTraits DECIMAL32) ''price'' [9, 9, 9, 9] =
       Get (price_row [1, 0, 0, 0, 0xF9, 0xFF, 0xFF, 0xFF, 0]) (TypeTraits DECIMAL32) 1 [9, 9, 9, 9]
   \<and> GetUnscaledDecimal_name (price_row [1, 0, 0, 0, 0xF9, 0xFF, 0xFF, 0xFF, 0]) ''price'' 5 =
       GetUnscaledDecimal (price_row [1, 0, 0, 0, 0xF9, 0xFF, 0xFF, 0xFF, 0]) 1 5
   \<and> (\<exists>st. IsNotFound st
         \<and> Get_name (price_row [1, 0, 0, 0, 0xF9, 0xFF, 0xFF, 0xFF, 0]) (TypeTraits DECIMAL32) ''zip'' [9, 9, 9, 9] =
             Returns (st, [9, 9, 9, 9])
         \<and> GetUnscaledDecimal_name (price_row [1, 0, 0, 0, 0xF9, 0xFF, 0xFF, 0xFF, 0]) ''zip'' 5 =
             Returns (st, 5))"
proof -
  let ?r = "price_row [1, 0, 0, 0, 0xF9, 0xFF, 0xFF, 0xFF, 0]"
  have f: "FindColumn (schema ?r) ''price'' = (OK, 1)"
    by (simp add: price_row_def FindColumn_price)
  have p: "''price'' \<in> set (map name (cols (schema ?r)))"
    by (simp add: price_row_def price_schema_def)
  have a: "''zip'' \<notin> set (map name (cols (schema ?r)))"
    by (simp add: price_row_def price_schema_def)
  from name_getters_refine [where r = ?r and col_name = "''price''" and i = 1
      and T = "TypeTraits DECIMAL32" and val = "[9, 9, 9, 9]" and dval = 5]
    name_getters_refine [where r = ?r and col_name = "''zip''" and i = 1
      and T = "TypeTraits DECIMAL32" and val = "[9, 9, 9, 9]" and dval = 5]
    f p a show ?thesis
    by blast
qed

subsection \<open>The deleted-row accessor\<close>

text \<open>
  Claim C8. On a schema without a deleted-row virtual column \<^verbatim>\<open>IsDeleted\<close> returns a
  not-found status and leaves the destination as it was. On a schema that has one it is
  the typed getter at the traits of \<^verbatim>\<open>IS_DELETED\<close>, called on the first such column, with
  that getter's type and null checks; in both cases the call returns.
\<close>

theorem IsDeleted_paths:
  "((\<forall>c \<in> set (cols (schema r)). ti_type (type_info c) \<noteq> IS_DELETED) \<longrightarrow>
      IsDeleted r val = Returns (NotFound ''IS_DELETED virtual column not found'', val))
   \<and> (k < length (cols (schema r)) \<and> ti_type (type_info (cols (schema r) ! k)) = IS_DELETED
        \<and> (\<forall>j < k. ti_type (type_info (cols (schema r) ! j)) \<noteq> IS_DELETED) \<longrightarrow>
      IsDeleted r val = Get r (TypeTraits IS_DELETED) (int k) val
      \<and> (\<exists>st val'. IsDeleted r val = Returns (st, val')))"
proof (intro conjI impI)
  assume "\<forall>c \<in> set (cols (schema r)). ti_type (type_info c) \<noteq> IS_DELETED"
  then show "IsDeleted r val = Returns (NotFound ''IS_DELETED virtual column not found'', val)"
    by (simp add: IsDeleted_def first_is_deleted_virtual_column_idx_def
        first_is_deleted_from_absent Let_def)
next
  assume a: "k < length (cols (schema r)) \<and> ti_type (type_info (cols (schema r) ! k)) = IS_DELETED
        \<and> (\<forall>j < k. ti_type (type_info (cols (schema r) ! j)) \<noteq> IS_DELETED)"
  then have "first_is_deleted_from 0 (cols (schema r)) = int k"
    using first_is_deleted_from_present [of k "cols (schema r)" 0] by simp
  then show e: "IsDeleted r val = Get r (TypeTraits IS_DELETED) (int k) val"
    by (simp add: IsDeleted_def first_is_deleted_virtual_column_idx_def Let_def kColumnNotFound_def)
  from a have "column (schema r) (int k) = Some (cols (schema r) ! k)"
    by (simp add: column_def)
  then have "\<exists>st val'. Get r (TypeTraits IS_DELETED) (int k) val = Returns (st, val')"
    by (simp add: Get_def IsNull_def)
  with e show "\<exists>st val'. IsDeleted r val = Returns (st, val')" by simp
qed

theorem IsDeleted_paths_witness:
  "IS_DELETED \<notin> set (map (\<lambda>c. ti_type (type_info c)) (cols (schema (price_row [1, 0, 0, 0, 0, 0, 0, 0, 0]))))
   \<and> IsDeleted (price_row [1, 0, 0, 0, 0, 0, 0, 0, 0]) [9] =
       Returns (NotFound ''IS_DELETED virtual column not found'', [9])
   \<and> (1::nat) < length (cols (schema \<lparr>schema = deleted_schema, row_data = mem_of [1, 0, 0, 0, 1]\<rparr>))
   \<and> ti_type (type_info (cols (schema \<lparr>schema = deleted_schema, row_data = mem_of [1, 0, 0, 0, 1]\<rparr>) ! 1)) = IS_DELETED
   \<and> ti_type (type_info (cols (schema \<lparr>schema = deleted_schema, row_data = mem_of [1, 0, 0, 0, 1]\<rparr>) ! 0)) \<noteq> IS_DELETED
   \<and> IsDeleted \<lparr>schema = deleted_schema, row_data = mem_of [1, 0, 0, 0, 1]\<rparr> [9] = Returns (OK, [1])"
proof -
  let ?r = "price_row [1, 0, 0, 0, 0, 0, 0, 0, 0]"
  let ?d = "\<lparr>schema = deleted_schema, row_data = mem_of [1, 0, 0, 0, 1]\<rparr>"
  have n: "\<forall>c \<in> set (cols (schema ?r)). ti_type (type_info c) \<noteq> IS_DELETED"
    by (simp add: price_row_def price_schema_def GetTypeInfo_def)
  have h: "(1::nat) < length (cols (schema ?d)) \<and> ti_type (type_info (cols (schema ?d) ! 1)) = IS_DELETED
        \<and> (\<forall>j < (1::nat). ti_type (type_info (cols (schema ?d) ! j)) \<noteq> IS_DELETED)"
    by (simp add: deleted_schema_def GetTypeInfo_def)
  have g: "Get ?d (TypeTraits IS_DELETED) (int 1) [9] = Returns (OK, [1])"
    by (simp add: Get_def column_deleted_1 GetTypeInfo_def TypeTraits_def read_bytes_def mem_of_def)
  have n': "IS_DELETED \<notin> set (map (\<lambda>c. ti_type (type_info c)) (cols (schema ?r)))"
    by (simp add: price_row_def price_schema_def GetTypeInfo_def)
  have h': "ti_type (type_info (cols (schema ?d) ! 0)) \<noteq> IS_DELETED"
    by (simp add: deleted_schema_def GetTypeInfo_def)
  from IsDeleted_paths [where r = ?r and val = "[9]" and k = 0]
    IsDeleted_paths [where r = ?d and val = "[9]" and k = 1] n h g n' h' show ?thesis
    by simp
qed

subsection \<open>Rendering\<close>

text \<open>
  Claim C9. \<^verbatim>\<open>ToCSVRowString\<close> rebuilds the buffer on every call: the result does not
  depend on what the buffer held. It renders the columns in schema order, one field per
  column, joined with a comma. With the rendering of a cell modelled from the
  specification, a null field renders as the marker, a string-typed field renders
  between double quotes with each embedded double quote doubled, and any other field
  renders as its natural text, unquoted. The row \<open>{id = 1, name = "a,b"}\<close> renders as
  \<^verbatim>\<open>1,"a,b"\<close>, and a row whose name is null still renders.
\<close>

theorem ToCSVRowString_renders:
  "fst (ToCSVRowString pr r redact ret) = join_with '','' (row_fields pr r)
   \<and> length (row_fields pr r) = num_columns (schema r)
   \<and> (\<forall>i < num_columns (schema r).
        row_fields pr r ! i = pr False (cols (schema r) ! i) (cell_at r i))
   \<and> (is_null c = Returns True \<longrightarrow> csv_cell null_marker natural_text b col c = null_marker col)
   \<and> (is_null c = Returns False \<and> is_string_type (ti_type (type_info col)) \<longrightarrow>
        csv_cell null_marker natural_text b col c =
          [CHR 0x22] @ csv_escape (natural_text col c) @ [CHR 0x22])
   \<and> (is_null c = Returns False \<and> \<not> is_string_type (ti_type (type_info col)) \<longrightarrow>
        csv_cell null_marker natural_text b col c = natural_text col c)
   \<and> (CHR 0x22 \<notin> set s \<longrightarrow> csv_escape s = s)
   \<and> csv_escape (s @ [CHR 0x22] @ t) = csv_escape s @ [CHR 0x22, CHR 0x22] @ csv_escape t"
proof (intro conjI)
  show "fst (ToCSVRowString pr r redact ret) = join_with '','' (row_fields pr r)"
    by (simp add: ToCSVRowString_eq)
  show "length (row_fields pr r) = num_columns (schema r)"
    by (simp add: row_fields_def)
  show "\<forall>i < num_columns (schema r).
        row_fields pr r ! i = pr False (cols (schema r) ! i) (cell_at r i)"
    by (simp add: row_fields_def)
  show "is_null c = Returns True \<longrightarrow> csv_cell null_marker natural_text b col c = null_marker col"
    by (simp add: csv_cell_def)
  show "is_null c = Returns False \<and> is_string_type (ti_type (type_info col)) \<longrightarrow>
        csv_cell null_marker natural_text b col c =
          [CHR 0x22] @ csv_escape (natural_text col c) @ [CHR 0x22]"
    by (simp add: csv_cell_def)
  show "is_null c = Returns False \<and> \<not> is_string_type (ti_type (type_info col)) \<longrightarrow>
        csv_cell null_marker natural_text b col c = natural_text col c"
    by (simp add: csv_cell_def)
  show "CHR 0x22 \<notin> set s \<longrightarrow> csv_escape s = s"
    by (induction s) auto
  show "csv_escape (s @ [CHR 0x22] @ t) = csv_escape s @ [CHR 0x22, CHR 0x22] @ csv_escape t"
    by (induction s) auto
qed

theorem ToCSVRowString_renders_witness:
  "ToCSVRowString (csv_cell (\<lambda>col. ''NULL'') ab_text) (name_row []) True ''stale'' =
     (''1,'' @ [CHR 0x22] @ ''a,b'' @ [CHR 0x22], True)
   \<and> ToCSVRowString (csv_cell (\<lambda>col. ''NULL'') ab_text) (name_row [0, 0, 0, 0, 0, 0, 0, 0, 0, 0, 0, 0, 0, 0, 0, 0, 0, 0, 0, 0, 2]) True ''stale'' =
     (''1,NULL'', True)"
proof -
  let ?pr = "csv_cell (\<lambda>col. ''NULL'') ab_text"
  have f: "row_fields ?pr (name_row []) = [''1'', [CHR 0x22] @ ''a,b'' @ [CHR 0x22]]"
    by (simp add: name_row_fields csv_cell_def name_row_nulls)
       (simp add: name_schema_def ab_text_def is_string_type_def GetTypeInfo_def)
  have g: "row_fields ?pr (name_row [0, 0, 0, 0, 0, 0, 0, 0, 0, 0, 0, 0, 0, 0, 0, 0, 0, 0, 0, 0, 2]) = [''1'', ''NULL'']"
    by (simp add: name_row_fields csv_cell_def name_row_nulls)
       (simp add: name_schema_def ab_text_def is_string_type_def GetTypeInfo_def)
  have t: "snd (ToCSVRowString ?pr (name_row []) True ''stale'') = True"
    "snd (ToCSVRowString ?pr (name_row [0, 0, 0, 0, 0, 0, 0, 0, 0, 0, 0, 0, 0, 0, 0, 0, 0, 0, 0, 0, 2]) True ''stale'') = True"
    by (simp_all add: ToCSVRowString_def ScopedDisableRedaction_def ScopedDisableRedaction_exit_def)
  from ToCSVRowString_renders [where pr = ?pr and r = "name_row []" and redact = True and ret = "''stale''"]
    ToCSVRowString_renders [where pr = ?pr and r = "name_row [0, 0, 0, 0, 0, 0, 0, 0, 0, 0, 0, 0, 0, 0, 0, 0, 0, 0, 0, 0, 2]" and redact = True and ret = "''stale''"]
  have "fst (ToCSVRowString ?pr (name_row []) True ''stale'') = join_with '','' (row_fields ?pr (name_row []))"
    "fst (ToCSVRowString ?pr (name_row [0, 0, 0, 0, 0, 0, 0, 0, 0, 0, 0, 0, 0, 0, 0, 0, 0, 0, 0, 0, 2]) True ''stale'') =
       join_with '','' (row_fields ?pr (name_row [0, 0, 0, 0, 0, 0, 0, 0, 0, 0, 0, 0, 0, 0, 0, 0, 0, 0, 0, 0, 2]))"
    by blast+
  with f g t show ?thesis
    by (simp add: prod_eq_iff)
qed

text \<open>
  Claim C10. \<^verbatim>\<open>ToCSVRowString\<close> renders every cell with redaction switched off and
  leaves the redaction flag as it found it: the flag after the call is the flag before
  it, and the text is the text a printer that never redacts produces, whatever the flag
  was on entry. \<^verbatim>\<open>ToString\<close> installs the same override. (The buffer is cleared before
  the override is installed; nothing is rendered until after it.)
\<close>

theorem ToCSVRowString_redaction:
  "snd (ToCSVRowString pr r redact ret) = redact
   \<and> fst (ToCSVRowString pr r redact ret) = fst (ToCSVRowString (\<lambda>b. pr False) r redact' ret')
   \<and> snd (ToString pr r redact) = redact
   \<and> fst (ToString pr r redact) = fst (ToString (\<lambda>b. pr False) r redact')"
  by (simp add: ToCSVRowString_eq ToString_eq row_fields_flag)

theorem ToCSVRowString_redaction_witness:
  "ToCSVRowString flag_printer (name_row []) True ''stale'' = (''id,name'', True)
   \<and> ToString flag_printer (name_row []) True = (''(id, name)'', True)"
proof -
  have f: "ToCSVRowString (\<lambda>b. flag_printer False) (name_row []) False [] = (''id,name'', False)"
    by (simp add: ToCSVRowString_eq name_row_fields) (simp add: flag_printer_def name_schema_def)
  have g: "ToString (\<lambda>b. flag_printer False) (name_row []) False = (''(id, name)'', False)"
    by (simp add: ToString_eq name_row_fields) (simp add: flag_printer_def name_schema_def)
  from ToCSVRowString_redaction [where pr = flag_printer and r = "name_row []" and redact = True
      and ret = "''stale''" and redact' = False and ret' = "[]"] f g
  show ?thesis
    by (simp add: prod_eq_iff)
qed

end
